theory Spec2Isabelle
  imports Main "HOL-Library.Finite_Map" "HOL-Library.Multiset"
    "HOL-Library.Char_ord" "HOL-Library.List_Lexorder"
begin

section \<open>The account quota controller\<close>

text \<open>
  A shallow embedding of \<^verbatim>\<open>pkg/manager/quota/controller/controller.go\<close>: the reconciler
  \<^verbatim>\<open>syncResourceQuota\<close>, the event handlers \<^verbatim>\<open>addQuota\<close> and \<^verbatim>\<open>replenishQuota\<close>, one tick
  of the discovery loop \<^verbatim>\<open>Sync\<close>, the probe \<^verbatim>\<open>GetQuotableResources\<close> and the shutdown path
  of \<^verbatim>\<open>Run\<close>. Calls that leave the process (the typed client, the evaluators) are
  parameters whose results are given; every error return of the source is a branch.
\<close>

subsection \<open>Resource lists\<close>

text \<open>
  A \<^verbatim>\<open>v1.ResourceList\<close> is a Go map from resource name to \<^verbatim>\<open>resource.Quantity\<close>. A quantity
  is represented by its numeric value (an arbitrary-precision integer count of the smallest
  unit), so that equality of two model quantities is \<^verbatim>\<open>Cmp == 0\<close>. The Go map may be
  \<^verbatim>\<open>nil\<close>, which the source tests for: \<open>None\<close> is the nil map, \<open>Some m\<close> an allocated one.
\<close>

type_synonym ResourceName = string
type_synonym Quantity = int
type_synonym ResourceList = "(ResourceName, Quantity) fmap option"

text \<open>Reading a Go map: a nil map has no entries.\<close>

definition entries :: "ResourceList \<Rightarrow> (ResourceName, Quantity) fmap" where
  "entries r = (case r of None \<Rightarrow> fmempty | Some m \<Rightarrow> m)"

text \<open>
  The helpers of the quota library (\<^verbatim>\<open>k8s.io/kubernetes/pkg/quota/v1\<close>) that the
  controller calls. They are a dependency, not part of the controller's file; each is
  written after the library's function of the same name.

  \<^verbatim>\<open>quota.Add(a, b)\<close>: a fresh map; every key of \<^verbatim>\<open>a\<close> with \<^verbatim>\<open>b\<close>'s quantity added when
  \<^verbatim>\<open>b\<close> has the key, then every key of \<^verbatim>\<open>b\<close> not yet in the result.
\<close>

definition Add :: "ResourceList \<Rightarrow> ResourceList \<Rightarrow> ResourceList" where
  "Add a b =
     (let result = fmmap_keys (\<lambda>key value. case fmlookup (entries b) key of
                                 Some other \<Rightarrow> value + other
                               | None \<Rightarrow> value) (entries a)
      in Some (result ++\<^sub>f fmfilter (\<lambda>key. fmlookup result key = None) (entries b)))"

text \<open>
  \<^verbatim>\<open>quota.ResourceNames\<close>: the keys as a slice. Go leaves the order of a map range
  unspecified; the model lists the keys in ascending order.
\<close>

definition ResourceNames :: "ResourceList \<Rightarrow> ResourceName list" where
  "ResourceNames resources = sorted_list_of_fset (fmdom (entries resources))"

text \<open>\<^verbatim>\<open>quota.Mask\<close>: a fresh map with the entries whose key is among the names.\<close>

definition Mask :: "ResourceList \<Rightarrow> ResourceName list \<Rightarrow> ResourceList" where
  "Mask resources names = Some (fmfilter (\<lambda>key. key \<in> set names) (entries resources))"

text \<open>
  \<^verbatim>\<open>quota.Equals\<close>: the same number of entries, and every key of \<^verbatim>\<open>a\<close> is found in
  \<^verbatim>\<open>b\<close> with a quantity that compares equal.
\<close>

definition Equals :: "ResourceList \<Rightarrow> ResourceList \<Rightarrow> bool" where
  "Equals a b =
     (if fcard (fmdom (entries a)) \<noteq> fcard (fmdom (entries b)) then False
      else list_all (\<lambda>key. case fmlookup (entries b) key of
                              None \<Rightarrow> False
                            | Some value2 \<Rightarrow> fmlookup (entries a) key = Some value2)
             (ResourceNames a))"

text \<open>
  \<^verbatim>\<open>apiequality.Semantic.DeepEqual\<close> on two resource lists: a nil map and an empty map
  are the same, otherwise the maps have the same keys and quantities that compare equal.
\<close>

definition SemanticDeepEqual :: "ResourceList \<Rightarrow> ResourceList \<Rightarrow> bool" where
  "SemanticDeepEqual a b = (entries a = entries b)"

subsection \<open>Errors\<close>

datatype error =
    NotFound string
  | ApiError string
  | EvaluatorError string
  | GroupDiscoveryFailed string
  | Aggregate "error list"

text \<open>\<^verbatim>\<open>utilerrors.NewAggregate\<close>: nil for an empty slice of errors.\<close>

definition NewAggregate :: "error list \<Rightarrow> error option" where
  "NewAggregate errlist = (if errlist = [] then None else Some (Aggregate errlist))"

fun IsNotFound :: "error \<Rightarrow> bool" where
  "IsNotFound (NotFound _) = True"
| "IsNotFound _ = False"

fun IsGroupDiscoveryFailedError :: "error \<Rightarrow> bool" where
  "IsGroupDiscoveryFailedError (GroupDiscoveryFailed _) = True"
| "IsGroupDiscoveryFailedError _ = False"

subsection \<open>API objects\<close>

type_synonym ScopeSelector = "(string \<times> string \<times> string list) list"

record ResourceQuotaSpec =
  Hard :: ResourceList
  Scopes :: "string list"
  ScopeSelector :: "ScopeSelector option"

record ResourceQuotaStatus =
  StatusHard :: ResourceList
  Used :: ResourceList

record AccountQuotaStatusByNamespace =
  Namespace :: string
  NsStatus :: ResourceQuotaStatus

record AccountQuotaStatus =
  Total :: ResourceQuotaStatus
  Namespaces :: "AccountQuotaStatusByNamespace list"

record AccountQuotaSpec =
  Account :: string
  Quota :: ResourceQuotaSpec

record AccountQuota =
  Name :: string
  Spec :: AccountQuotaSpec
  Status :: AccountQuotaStatus

record NamespaceObj =
  NsName :: string

subsection \<open>Evaluators and the registry\<close>

datatype GroupResource = GroupResource string string

record Evaluator =
  MatchingResources :: "ResourceName list \<Rightarrow> ResourceName list"

record Registry =
  RegistryGet :: "GroupResource \<Rightarrow> Evaluator option"
  RegistryList :: "Evaluator list"

subsection \<open>The typed client\<close>

text \<open>
  What the controller asks of the cluster, with the answer of each call given:
  the namespaces of an account (the index lookup of \<^verbatim>\<open>syncResourceQuota\<close>), all account
  quotas (\<^verbatim>\<open>replenishQuota\<close>), the result of \<^verbatim>\<open>Status().Update\<close>, and
  \<^verbatim>\<open>quota.CalculateUsage\<close>, which runs the registry's evaluators against the cluster for one
  namespace and returns the usage it could compute together with an optional error.
\<close>

record Client =
  ListNamespaces :: "string \<Rightarrow> error + NamespaceObj list"
  ListAccountQuotas :: "error + AccountQuota list"
  StatusUpdate :: "AccountQuota \<Rightarrow> error option"
  CalculateUsage :: "string \<Rightarrow> string list \<Rightarrow> ResourceList \<Rightarrow> Registry
                       \<Rightarrow> ScopeSelector option \<Rightarrow> ResourceList \<times> error option"

subsection \<open>The reconciler\<close>

text \<open>
  Lines 382 to 387: the used list of namespace \<open>n\<close> starts empty and is replaced by a copy
  of the used map of each previous status entry of that namespace whose map is not nil.
\<close>

fun seedUsedList :: "AccountQuotaStatusByNamespace list \<Rightarrow> string \<Rightarrow> ResourceList \<Rightarrow> ResourceList" where
  "seedUsedList [] n usedList = usedList"
| "seedUsedList (nsStatus # rest) n usedList =
     seedUsedList rest n
       (if Namespace nsStatus = n \<and> Used (NsStatus nsStatus) \<noteq> None
        then Add (Some fmempty) (Used (NsStatus nsStatus))
        else usedList)"

text \<open>Lines 389 to 391: every entry of the new usage overwrites the used list's.\<close>

definition overlay :: "ResourceList \<Rightarrow> ResourceList \<Rightarrow> ResourceList" where
  "overlay usedList newUsage = Some (entries usedList ++\<^sub>f entries newUsage)"

record SyncAcc =
  used :: "AccountQuotaStatusByNamespace list"
  totalUsed :: ResourceList
  errors :: "error list"

text \<open>The body of the loop over the listed namespaces, lines 376 to 401.\<close>

definition namespaceStep :: "Client \<Rightarrow> Registry \<Rightarrow> AccountQuota \<Rightarrow> ResourceList
                        \<Rightarrow> NamespaceObj \<Rightarrow> SyncAcc \<Rightarrow> SyncAcc" where
  "namespaceStep cl reg accountQuota hardLimits n acc =
     (let (newUsage, err) =
            CalculateUsage cl (NsName n) (Scopes (Quota (Spec accountQuota))) hardLimits reg
              (ScopeSelector (Quota (Spec accountQuota)));
          errors' = (case err of None \<Rightarrow> errors acc | Some e \<Rightarrow> errors acc @ [e]);
          usedList = seedUsedList (Namespaces (Status accountQuota)) (NsName n) (Some fmempty);
          usedList = overlay usedList newUsage;
          usedList = Mask usedList (ResourceNames hardLimits)
      in \<lparr> used = used acc @ [\<lparr> Namespace = NsName n,
                                  NsStatus = \<lparr> StatusHard = None, Used = usedList \<rparr> \<rparr>],
           totalUsed = Add (totalUsed acc) usedList,
           errors = errors' \<rparr>)"

text \<open>The loop, line 375: the namespaces in the order the client listed them.\<close>

fun namespaceLoop :: "Client \<Rightarrow> Registry \<Rightarrow> AccountQuota \<Rightarrow> ResourceList
                        \<Rightarrow> NamespaceObj list \<Rightarrow> SyncAcc \<Rightarrow> SyncAcc" where
  "namespaceLoop cl reg accountQuota hardLimits [] acc = acc"
| "namespaceLoop cl reg accountQuota hardLimits (n # ns) acc =
     namespaceLoop cl reg accountQuota hardLimits ns
       (namespaceStep cl reg accountQuota hardLimits n acc)"

text \<open>Line 361: the hard limits are a copy of the spec's.\<close>

definition hardLimitsOf :: "AccountQuota \<Rightarrow> ResourceList" where
  "hardLimitsOf accountQuota = Add (Some fmempty) (Hard (Quota (Spec accountQuota)))"

text \<open>Lines 371 to 402: the loop started on the empty accumulators.\<close>

definition calculateUsages :: "Client \<Rightarrow> Registry \<Rightarrow> AccountQuota \<Rightarrow> NamespaceObj list \<Rightarrow> SyncAcc" where
  "calculateUsages cl reg accountQuota namespaceList =
     namespaceLoop cl reg accountQuota (hardLimitsOf accountQuota) namespaceList
       \<lparr> used = [], totalUsed = Some fmempty, errors = [] \<rparr>"

text \<open>Lines 407 to 413: the status of the object that is written.\<close>

definition usageStatus :: "AccountQuota \<Rightarrow> SyncAcc \<Rightarrow> AccountQuotaStatus" where
  "usageStatus accountQuota acc =
     \<lparr> Total = \<lparr> StatusHard = hardLimitsOf accountQuota, Used = totalUsed acc \<rparr>,
       Namespaces = used acc \<rparr>"

text \<open>
  The outcome of one reconcile: the object handed to \<^verbatim>\<open>Status().Update\<close>, if the call was
  made, and the error returned.
\<close>

record SyncResult =
  written :: "AccountQuota option"
  returned :: "error option"

definition syncResourceQuota :: "Client \<Rightarrow> Registry \<Rightarrow> AccountQuota \<Rightarrow> SyncResult" where
  "syncResourceQuota cl reg accountQuota =
     (let statusLimitsDirty =
            \<not> SemanticDeepEqual (Hard (Quota (Spec accountQuota)))
                                 (StatusHard (Total (Status accountQuota)));
          dirty = (statusLimitsDirty \<or> StatusHard (Total (Status accountQuota)) = None
                     \<or> Used (Total (Status accountQuota)) = None)
      in case ListNamespaces cl (Account (Spec accountQuota)) of
           Inl err \<Rightarrow> \<lparr> written = None, returned = Some err \<rparr>
         | Inr namespaceList \<Rightarrow>
             (let acc = calculateUsages cl reg accountQuota namespaceList;
                  usage = accountQuota \<lparr> Status := usageStatus accountQuota acc \<rparr>;
                  dirty = (dirty \<or> \<not> Equals (Used (Total (Status usage)))
                                            (Used (Total (Status accountQuota))))
              in if dirty
                 then (case StatusUpdate cl usage of
                         Some err \<Rightarrow> \<lparr> written = Some usage,
                                       returned = NewAggregate (errors acc @ [err]) \<rparr>
                       | None \<Rightarrow> \<lparr> written = Some usage,
                                   returned = NewAggregate (errors acc) \<rparr>)
                 else \<lparr> written = None, returned = NewAggregate (errors acc) \<rparr>))"

subsection \<open>Work queues and the controller\<close>

text \<open>
  A rate-limited work queue of the client library, as far as the controller's calls go:
  \<^verbatim>\<open>Add\<close> appends a key that is not yet waiting and does nothing once the queue is shutting
  down; \<^verbatim>\<open>ShutDown\<close> sets the flag that makes \<^verbatim>\<open>Get\<close> report \<^verbatim>\<open>quit\<close> to the workers.
\<close>

record WorkQueue =
  items :: "string list"
  shuttingDown :: bool

definition QueueAdd :: "string \<Rightarrow> WorkQueue \<Rightarrow> WorkQueue" where
  "QueueAdd key q =
     (if shuttingDown q then q
      else if key \<in> set (items q) then q
      else q \<lparr> items := items q @ [key] \<rparr>)"

definition ShutDown :: "WorkQueue \<Rightarrow> WorkQueue" where
  "ShutDown q = q \<lparr> shuttingDown := True \<rparr>"

record AccountQuotaController =
  queue :: WorkQueue
  missingUsageQueue :: WorkQueue
  registry :: Registry

text \<open>
  \<^verbatim>\<open>controller.KeyFunc\<close> on an account quota: the object is cluster-scoped, so its key is
  its name.
\<close>

definition KeyFunc :: "AccountQuota \<Rightarrow> error + string" where
  "KeyFunc obj = Inr (Name obj)"

definition enqueueAccountQuota :: "AccountQuotaController \<Rightarrow> AccountQuota \<Rightarrow> AccountQuotaController" where
  "enqueueAccountQuota rq obj =
     (case KeyFunc obj of
        Inl err \<Rightarrow> rq
      | Inr key \<Rightarrow> rq \<lparr> queue := QueueAdd key (queue rq) \<rparr>)"

subsection \<open>Prioritisation of an observed account quota\<close>

text \<open>Lines 262 to 267: does some evaluator match the single constraint?\<close>

fun evaluatorLoop :: "Evaluator list \<Rightarrow> ResourceName list \<Rightarrow> bool" where
  "evaluatorLoop [] matchedResources = False"
| "evaluatorLoop (evaluator # rest) matchedResources =
     (if length (MatchingResources evaluator matchedResources) > 0 then True
      else evaluatorLoop rest matchedResources)"

text \<open>
  Lines 259 to 269: the range over the constraints of the status' hard limits; \<open>True\<close>
  when the loop enqueued on the priority queue and returned.
\<close>

fun constraintLoop :: "Registry \<Rightarrow> ResourceList \<Rightarrow> ResourceName list \<Rightarrow> bool" where
  "constraintLoop reg usedOfStatus [] = False"
| "constraintLoop reg usedOfStatus (constraint # rest) =
     (if fmlookup (entries usedOfStatus) constraint = None
         \<and> evaluatorLoop (RegistryList reg) [constraint]
      then True
      else constraintLoop reg usedOfStatus rest)"

definition addQuota :: "AccountQuotaController \<Rightarrow> AccountQuota \<Rightarrow> AccountQuotaController" where
  "addQuota rq accountQuota =
     (case KeyFunc accountQuota of
        Inl err \<Rightarrow> rq
      | Inr key \<Rightarrow>
          if \<not> SemanticDeepEqual (Hard (Quota (Spec accountQuota)))
                                  (StatusHard (Total (Status accountQuota)))
          then rq \<lparr> missingUsageQueue := QueueAdd key (missingUsageQueue rq) \<rparr>
          else if constraintLoop (registry rq) (Used (Total (Status accountQuota)))
                    (ResourceNames (StatusHard (Total (Status accountQuota))))
          then rq \<lparr> missingUsageQueue := QueueAdd key (missingUsageQueue rq) \<rparr>
          else rq \<lparr> queue := QueueAdd key (queue rq) \<rparr>)"

subsection \<open>Replenishment\<close>

text \<open>Lines 451 to 458.\<close>

fun replenishLoop :: "Evaluator \<Rightarrow> AccountQuota list \<Rightarrow> AccountQuotaController \<Rightarrow> AccountQuotaController" where
  "replenishLoop evaluator [] rq = rq"
| "replenishLoop evaluator (accountQuota # rest) rq =
     replenishLoop evaluator rest
       (let accountQuotaResources = ResourceNames (StatusHard (Total (Status accountQuota)))
        in if length (MatchingResources evaluator accountQuotaResources) > 0
           then enqueueAccountQuota rq accountQuota
           else rq)"

definition replenishQuota :: "Client \<Rightarrow> AccountQuotaController \<Rightarrow> GroupResource \<Rightarrow> string
                                \<Rightarrow> AccountQuotaController" where
  "replenishQuota cl rq groupResource namespace =
     (case RegistryGet (registry rq) groupResource of
        None \<Rightarrow> rq
      | Some evaluator \<Rightarrow>
          (case ListAccountQuotas cl of
             Inl err \<Rightarrow> (if IsNotFound err then rq else rq)
           | Inr accountQuotaList \<Rightarrow>
               if length accountQuotaList = 0 then rq
               else replenishLoop evaluator accountQuotaList rq))"

subsection \<open>Discovery\<close>

datatype GroupVersionResource = GroupVersionResource string string string

text \<open>
  \<^verbatim>\<open>GetQuotableResources\<close>, lines 565 to 582: the body that queries discovery is commented
  out; the function returns a map literal with one key and a nil error.
\<close>

definition GetQuotableResources :: "GroupVersionResource fset \<times> error option" where
  "GetQuotableResources = ({| GroupVersionResource [] ''v1'' ''pods'' |}, None)"




text \<open>
  Lines 470 to 480: what the tick continues with after the probe has answered; \<open>None\<close> is
  the short circuit. A map with \<^verbatim>\<open>struct{}\<close> values is a set, and copying every old key into
  the new map is a union.
\<close>

definition mergeDiscovery :: "GroupVersionResource fset \<Rightarrow> GroupVersionResource fset \<times> error option
                                \<Rightarrow> GroupVersionResource fset option" where
  "mergeDiscovery old discovered =
     (case discovered of (newResources, err) \<Rightarrow>
        (case err of
           None \<Rightarrow> Some newResources
         | Some e \<Rightarrow>
             if IsGroupDiscoveryFailedError e \<and> fcard newResources > 0
             then Some (newResources |\<union>| old)
             else None))"


text \<open>
  What a cluster serves, as discovery reports it: per group and version, the resources
  with their verbs. A \<^verbatim>\<open>NamespacedResourcesFunc\<close> (line 52) returns such a list and an
  optional error.
\<close>

record APIResource =
  APIName :: string
  Verbs :: "string list"

record APIResourceList =
  GroupVersion :: "string \<times> string"
  APIResources :: "APIResource list"



subsection \<open>Shutdown\<close>

text \<open>
  \<^verbatim>\<open>Run\<close>, lines 306 to 330, starts the monitor, the workers and the resync timer as
  goroutines and blocks on the stop channel. What \<^verbatim>\<open>Run\<close> itself does to the controller
  happens in its deferred calls when the channel is closed: line 308,
  \<^verbatim>\<open>defer rq.queue.ShutDown()\<close>, is the only one that touches a queue.
\<close>

definition Run :: "AccountQuotaController \<Rightarrow> nat \<Rightarrow> AccountQuotaController" where
  "Run rq workers = rq \<lparr> queue := ShutDown (queue rq) \<rparr>"

section \<open>Notions the properties are stated with\<close>

text \<open>Adding two optional quantities: an absent one contributes nothing.\<close>

fun addOpt :: "Quantity option \<Rightarrow> Quantity option \<Rightarrow> Quantity option" where
  "addOpt None y = y"
| "addOpt (Some v) None = Some v"
| "addOpt (Some v) (Some w) = Some (v + w)"

text \<open>
  The sum of a collection of used maps at one resource name: absent when no map has the
  name, otherwise the sum of the quantities of the maps that have it.
\<close>

definition sumPerResource :: "ResourceList list \<Rightarrow> ResourceName \<Rightarrow> Quantity option" where
  "sumPerResource ls r =
     (let qs = List.map_filter (\<lambda>l. fmlookup (entries l) r) ls
      in if qs = [] then None else Some (sum_list qs))"

definition usedMaps :: "AccountQuotaStatusByNamespace list \<Rightarrow> ResourceList list" where
  "usedMaps es = map (\<lambda>e. Used (NsStatus e)) es"

text \<open>The resource names that occur anywhere in a status.\<close>

definition statusResourceNames :: "AccountQuotaStatus \<Rightarrow> ResourceName fset" where
  "statusResourceNames st =
     fmdom (entries (StatusHard (Total st))) |\<union>| fmdom (entries (Used (Total st)))
       |\<union>| ffUnion (fset_of_list (map (\<lambda>e. fmdom (entries (StatusHard (NsStatus e)))
                                           |\<union>| fmdom (entries (Used (NsStatus e))))
                                  (Namespaces st)))"

subsection \<open>A small cluster\<close>

text \<open>
  Account \<open>a\<close> owns the namespaces \<open>n1\<close> and \<open>n2\<close>. The evaluators report one pod and two
  services in \<open>n1\<close>, and three pods together with an error in \<open>n2\<close>. The quota \<open>q\<close> declares
  ten pods and has no status yet.
\<close>

definition exampleClient :: Client where
  "exampleClient =
     \<lparr> ListNamespaces = (\<lambda>account. if account = ''a''
                               then Inr [\<lparr> NsName = ''n1'' \<rparr>, \<lparr> NsName = ''n2'' \<rparr>]
                               else Inr []),
       ListAccountQuotas = Inr [],
       StatusUpdate = (\<lambda>usage. None),
       CalculateUsage = (\<lambda>n scopes hard reg sel.
          if n = ''n1'' then (Some (fmap_of_list [(''pods'', 1), (''services'', 2)]), None)
          else (Some (fmap_of_list [(''pods'', 3)]), Some (EvaluatorError ''no metrics''))) \<rparr>"

definition podEvaluator :: Evaluator where
  "podEvaluator = \<lparr> MatchingResources = filter (\<lambda>r. r = ''pods'') \<rparr>"

definition exampleRegistry :: Registry where
  "exampleRegistry =
     \<lparr> RegistryGet = (\<lambda>gr. if gr = GroupResource [] ''pods'' then Some podEvaluator else None),
       RegistryList = [podEvaluator] \<rparr>"

definition exampleQuota :: AccountQuota where
  "exampleQuota =
     \<lparr> Name = ''q'',
       Spec = \<lparr> Account = ''a'',
                Quota = \<lparr> Hard = Some (fmap_of_list [(''pods'', 10)]), Scopes = [],
                          ScopeSelector = None \<rparr> \<rparr>,
       Status = \<lparr> Total = \<lparr> StatusHard = None, Used = None \<rparr>, Namespaces = [] \<rparr> \<rparr>"

text \<open>The object the first reconcile of \<open>q\<close> writes.\<close>

definition exampleWritten :: AccountQuota where
  "exampleWritten =
     exampleQuota
       \<lparr> Status :=
           \<lparr> Total = \<lparr> StatusHard = Some (fmap_of_list [(''pods'', 10)]),
                       Used = Some (fmap_of_list [(''pods'', 4)]) \<rparr>,
             Namespaces =
               [\<lparr> Namespace = ''n1'',
                  NsStatus = \<lparr> StatusHard = None, Used = Some (fmap_of_list [(''pods'', 1)]) \<rparr> \<rparr>,
                \<lparr> Namespace = ''n2'',
                  NsStatus = \<lparr> StatusHard = None, Used = Some (fmap_of_list [(''pods'', 3)]) \<rparr> \<rparr>] \<rparr> \<rparr>"

text \<open>
  The invariant of the namespace loop behind the masking: the running total and every
  recorded entry only have resource names of the set \<open>D\<close>, and no entry has hard limits.
\<close>

definition maskedAcc :: "ResourceName fset \<Rightarrow> SyncAcc \<Rightarrow> bool" where
  "maskedAcc D acc \<longleftrightarrow>
     fmdom (entries (totalUsed acc)) |\<subseteq>| D \<and>
     (\<forall>e \<in> set (used acc). StatusHard (NsStatus e) = None
                               \<and> fmdom (entries (Used (NsStatus e))) |\<subseteq>| D)"

text \<open>
  The previous status counts as absent when the hard or the used map of its total is nil
  (line 360).
\<close>

definition statusAbsent :: "AccountQuota \<Rightarrow> bool" where
  "statusAbsent previous \<longleftrightarrow>
     StatusHard (Total (Status previous)) = None \<or> Used (Total (Status previous)) = None"

text \<open>
  Dirty, in words: the spec's hard limits differ from the previous status' hard limits, or
  the previous status is absent, or the newly computed total used differs from the previous
  one. Two resource lists differ when they do not have the same names with equal quantities.
\<close>

definition dirtyAsStated :: "AccountQuota \<Rightarrow> ResourceList \<Rightarrow> bool" where
  "dirtyAsStated previous newUsed \<longleftrightarrow>
     entries (Hard (Quota (Spec previous))) \<noteq> entries (StatusHard (Total (Status previous)))
     \<or> statusAbsent previous
     \<or> entries newUsed \<noteq> entries (Used (Total (Status previous)))"

text \<open>The errors the evaluators report for the listed namespaces, in list order.\<close>

definition evaluatorErrors :: "Client \<Rightarrow> Registry \<Rightarrow> AccountQuota \<Rightarrow> NamespaceObj list \<Rightarrow> error list" where
  "evaluatorErrors cl reg aq ns =
     List.map_filter (\<lambda>n. snd (CalculateUsage cl (NsName n) (Scopes (Quota (Spec aq)))
                                 (hardLimitsOf aq) reg (ScopeSelector (Quota (Spec aq))))) ns"

text \<open>The error of the status update, if the update was attempted and failed.\<close>

definition updateErrors :: "Client \<Rightarrow> AccountQuota option \<Rightarrow> error list" where
  "updateErrors cl w =
     (case w of
        None \<Rightarrow> []
      | Some usage \<Rightarrow> (case StatusUpdate cl usage of None \<Rightarrow> [] | Some e \<Rightarrow> [e]))"

text \<open>The same cluster when the namespace listing times out.\<close>

definition failingClient :: Client where
  "failingClient = exampleClient \<lparr> ListNamespaces := (\<lambda>account. Inl (ApiError ''timeout'')) \<rparr>"

text \<open>
  What the loop records for one namespace: the used list computed at lines 382 to 393 and
  the entry appended at line 394.
\<close>

definition usedFor :: "Client \<Rightarrow> Registry \<Rightarrow> AccountQuota \<Rightarrow> ResourceList \<Rightarrow> string \<Rightarrow> ResourceList" where
  "usedFor cl reg aq hl n =
     Mask (overlay (seedUsedList (Namespaces (Status aq)) n (Some fmempty))
             (fst (CalculateUsage cl n (Scopes (Quota (Spec aq))) hl reg
                     (ScopeSelector (Quota (Spec aq))))))
          (ResourceNames hl)"

definition entryFor :: "Client \<Rightarrow> Registry \<Rightarrow> AccountQuota \<Rightarrow> ResourceList \<Rightarrow> NamespaceObj
                          \<Rightarrow> AccountQuotaStatusByNamespace" where
  "entryFor cl reg aq hl n =
     \<lparr> Namespace = NsName n,
       NsStatus = \<lparr> StatusHard = None, Used = usedFor cl reg aq hl (NsName n) \<rparr> \<rparr>"

subsection \<open>Prioritisation and replenishment, in words\<close>

text \<open>The spec's hard limits differ from the status' hard limits.\<close>

definition hardDiffers :: "AccountQuota \<Rightarrow> bool" where
  "hardDiffers aq \<longleftrightarrow>
     entries (Hard (Quota (Spec aq))) \<noteq> entries (StatusHard (Total (Status aq)))"

text \<open>Some registered evaluator claims the resource name.\<close>

definition claimedByEvaluator :: "Registry \<Rightarrow> ResourceName \<Rightarrow> bool" where
  "claimedByEvaluator reg r \<longleftrightarrow> (\<exists>e \<in> set (RegistryList reg). MatchingResources e [r] \<noteq> [])"

text \<open>
  Some declared hard resource has no entry in the status' total used map and is claimed by
  an evaluator.
\<close>

definition missingUsage :: "Registry \<Rightarrow> AccountQuota \<Rightarrow> bool" where
  "missingUsage reg aq \<longleftrightarrow>
     fBex (fmdom (entries (Hard (Quota (Spec aq)))))
       (\<lambda>r. fmlookup (entries (Used (Total (Status aq)))) r = None \<and> claimedByEvaluator reg r)"

text \<open>The evaluator matches some resource name of the quota's status hard limits.\<close>

definition tracked :: "Evaluator \<Rightarrow> AccountQuota \<Rightarrow> bool" where
  "tracked ev aq \<longleftrightarrow>
     MatchingResources ev (ResourceNames (StatusHard (Total (Status aq)))) \<noteq> []"

text \<open>
  The contract of \<^verbatim>\<open>MatchingResources\<close>: the result is an intersection with the names
  passed in.
\<close>

definition intersecting :: "Evaluator \<Rightarrow> bool" where
  "intersecting ev \<longleftrightarrow> (\<forall>names. set (MatchingResources ev names) \<subseteq> set names)"

text \<open>Adding the keys of a list of quotas to a queue, one after the other.\<close>

definition enqueueAllOf :: "WorkQueue \<Rightarrow> AccountQuota list \<Rightarrow> WorkQueue" where
  "enqueueAllOf q aqs = foldl (\<lambda>q aq. QueueAdd (Name aq) q) q aqs"

text \<open>
  A controller with empty queues; a quota whose hard limits are in its status but whose
  usage is still empty; a quota whose status has not been written at all.
\<close>

definition exampleController :: AccountQuotaController where
  "exampleController =
     \<lparr> queue = \<lparr> items = [], shuttingDown = False \<rparr>,
       missingUsageQueue = \<lparr> items = [], shuttingDown = False \<rparr>,
       registry = exampleRegistry \<rparr>"

definition exampleMissing :: AccountQuota where
  "exampleMissing =
     exampleQuota
       \<lparr> Status := \<lparr> Total = \<lparr> StatusHard = Some (fmap_of_list [(''pods'', 10)]),
                                 Used = Some fmempty \<rparr>,
                     Namespaces = [] \<rparr> \<rparr>"

definition exampleUnwritten :: AccountQuota where
  "exampleUnwritten = exampleQuota \<lparr> Name := ''fresh'' \<rparr>"

definition quotaClient :: Client where
  "quotaClient = exampleClient \<lparr> ListAccountQuotas := Inr [exampleWritten, exampleUnwritten] \<rparr>"

subsection \<open>Discovery, in words\<close>

text \<open>
  The quotable resources of what is served: the group/version/resource triples whose
  resource supports the verbs create, list, watch and delete.
\<close>

definition servedQuotable :: "APIResourceList list \<Rightarrow> GroupVersionResource fset" where
  "servedQuotable served =
     fset_of_list (concat (map (\<lambda>l.
        map (\<lambda>r. GroupVersionResource (fst (GroupVersion l)) (snd (GroupVersion l)) (APIName r))
          (filter (\<lambda>r. set [''create'', ''list'', ''watch'', ''delete''] \<subseteq> set (Verbs r))
             (APIResources l))) served))"

text \<open>A cluster that serves pods and deployments, both with all four verbs.\<close>

definition exampleServed :: "APIResourceList list" where
  "exampleServed =
     [\<lparr> GroupVersion = ([], ''v1''),
         APIResources = [\<lparr> APIName = ''pods'',
                            Verbs = [''create'', ''delete'', ''get'', ''list'', ''watch''] \<rparr>] \<rparr>,
      \<lparr> GroupVersion = (''apps'', ''v1''),
         APIResources = [\<lparr> APIName = ''deployments'',
                            Verbs = [''create'', ''delete'', ''get'', ''list'', ''watch''] \<rparr>] \<rparr>]"



subsection \<open>More of the small cluster\<close>

text \<open>The usage that the evaluation of one namespace returns, error or not.\<close>

definition newUsageOf :: "Client \<Rightarrow> Registry \<Rightarrow> AccountQuota \<Rightarrow> NamespaceObj \<Rightarrow> ResourceList" where
  "newUsageOf cl reg aq n =
     fst (CalculateUsage cl (NsName n) (Scopes (Quota (Spec aq))) (hardLimitsOf aq) reg
            (ScopeSelector (Quota (Spec aq))))"

text \<open>
  The same cluster when the evaluation of the first namespace reports an error next to
  the usage it could compute, and the second namespace evaluates cleanly.
\<close>

definition flakyClient :: Client where
  "flakyClient =
     exampleClient
       \<lparr> CalculateUsage := (\<lambda>n scopes hard reg sel.
            if n = ''n1''
            then (Some (fmap_of_list [(''pods'', 1)]),
                  Some (Aggregate [EvaluatorError ''no metrics'']))
            else (Some (fmap_of_list [(''pods'', 3)]), None)) \<rparr>"




section \<open>Properties of the resource-list helpers\<close>

lemma entries_Some [simp]: "entries (Some m) = m"
  by (simp add: entries_def)

lemma entries_None [simp]: "entries None = fmempty"
  by (simp add: entries_def)

lemma lookup_Add:
  "fmlookup (entries (Add a b)) r = addOpt (fmlookup (entries a) r) (fmlookup (entries b) r)"
  by (cases "fmlookup (entries a) r"; cases "fmlookup (entries b) r")
     (auto simp add: Add_def Let_def fmlookup_dom_iff)

lemma Add_not_nil: "Add a b \<noteq> None"
  by (simp add: Add_def Let_def)

lemma Add_empty_copy: "entries (Add (Some fmempty) b) = entries b"
  by (rule fmap_ext) (simp add: lookup_Add)

lemma map_filter_append:
  "List.map_filter f (xs @ ys) = List.map_filter f xs @ List.map_filter f ys"
  by (simp add: List.map_filter_def)

lemma mset_map_filter:
  "mset (List.map_filter f xs) = image_mset (the \<circ> f) (filter_mset (\<lambda>x. f x \<noteq> None) (mset xs))"
  by (simp add: List.map_filter_def)

lemma sumPerResource_Nil: "sumPerResource [] r = None"
  by (simp add: sumPerResource_def List.map_filter_simps)

lemma sumPerResource_snoc:
  "sumPerResource (ls @ [l]) r = addOpt (sumPerResource ls r) (fmlookup (entries l) r)"
  by (cases "fmlookup (entries l) r")
     (simp_all add: sumPerResource_def Let_def map_filter_append List.map_filter_simps)

text \<open>The sum does not depend on the order in which the maps are listed.\<close>

lemma sumPerResource_mset:
  assumes "mset ls = mset ls'"
  shows "sumPerResource ls r = sumPerResource ls' r"
proof -
  let ?f = "\<lambda>l. fmlookup (entries l) r"
  have "mset (List.map_filter ?f ls) = mset (List.map_filter ?f ls')"
    using assms by (simp add: mset_map_filter)
  then have "sum_list (List.map_filter ?f ls) = sum_list (List.map_filter ?f ls')"
    and "(List.map_filter ?f ls = []) = (List.map_filter ?f ls' = [])"
    by (metis sum_mset_sum_list, metis mset_zero_iff)
  then show ?thesis by (simp add: sumPerResource_def Let_def)
qed

section \<open>The reconciler's loop\<close>

lemma namespaceStep_used:
  "used (namespaceStep cl reg aq hl n acc) =
     used acc @ [\<lparr> Namespace = NsName n, NsStatus = \<lparr> StatusHard = None,
        Used = Mask (overlay (seedUsedList (Namespaces (Status aq)) (NsName n) (Some fmempty))
                 (fst (CalculateUsage cl (NsName n) (Scopes (Quota (Spec aq))) hl reg
                         (ScopeSelector (Quota (Spec aq))))))
               (ResourceNames hl) \<rparr> \<rparr>]"
  by (simp add: namespaceStep_def Let_def split: prod.splits)

lemma namespaceStep_totalUsed:
  "totalUsed (namespaceStep cl reg aq hl n acc) =
     Add (totalUsed acc) (Used (NsStatus (last (used (namespaceStep cl reg aq hl n acc)))))"
  by (simp add: namespaceStep_def Let_def split: prod.splits)

lemma namespaceStep_total:
  assumes "fmlookup (entries (totalUsed acc)) r = sumPerResource (usedMaps (used acc)) r"
  shows "fmlookup (entries (totalUsed (namespaceStep cl reg aq hl n acc))) r =
     sumPerResource (usedMaps (used (namespaceStep cl reg aq hl n acc))) r"
  by (simp add: namespaceStep_totalUsed lookup_Add assms)
     (simp add: namespaceStep_used usedMaps_def sumPerResource_snoc)

lemma namespaceLoop_total:
  "fmlookup (entries (totalUsed acc)) r = sumPerResource (usedMaps (used acc)) r \<Longrightarrow>
   fmlookup (entries (totalUsed (namespaceLoop cl reg aq hl ns acc))) r =
     sumPerResource (usedMaps (used (namespaceLoop cl reg aq hl ns acc))) r"
  by (induction ns arbitrary: acc) (simp_all add: namespaceStep_total)

lemma sync_written:
  assumes "written (syncResourceQuota cl reg aq) = Some usage"
  obtains ns where "ListNamespaces cl (Account (Spec aq)) = Inr ns"
    and "usage = aq \<lparr> Status := usageStatus aq (calculateUsages cl reg aq ns) \<rparr>"
  using assms
  by (auto simp add: syncResourceQuota_def Let_def split: sum.splits if_splits option.splits)

section \<open>The written total is the sum over the namespaces\<close>

text \<open>
  C1. Whenever \<^verbatim>\<open>syncResourceQuota\<close> writes a status, the total used map of that status
  has, at every resource name, the sum of the used maps of the status' namespace entries
  at that name; the sum may be taken over the entries in any order.
\<close>

theorem total_used_is_sum:
  assumes "written (syncResourceQuota cl reg aq) = Some usage"
    and "mset ls = mset (usedMaps (Namespaces (Status usage)))"
  shows "fmlookup (entries (Used (Total (Status usage)))) r = sumPerResource ls r"
proof -
  from assms(1) obtain ns where
    u: "usage = aq \<lparr> Status := usageStatus aq (calculateUsages cl reg aq ns) \<rparr>"
    by (rule sync_written)
  let ?acc = "calculateUsages cl reg aq ns"
  have "fmlookup (entries (totalUsed ?acc)) r = sumPerResource (usedMaps (used ?acc)) r"
    unfolding calculateUsages_def
    by (rule namespaceLoop_total) (simp add: usedMaps_def sumPerResource_Nil)
  also have "\<dots> = sumPerResource ls r"
    using assms(2) by (intro sumPerResource_mset) (simp add: u usageStatus_def)
  finally show ?thesis by (simp add: u usageStatus_def)
qed

theorem total_used_is_sum_witness:
  "written (syncResourceQuota exampleClient exampleRegistry exampleQuota) = Some exampleWritten
   \<and> mset [Some (fmap_of_list [(''pods'', 3)]), Some (fmap_of_list [(''pods'', 1)])]
       = mset (usedMaps (Namespaces (Status exampleWritten)))
   \<and> fmlookup (entries (Used (Total (Status exampleWritten)))) ''pods''
       = sumPerResource [Some (fmap_of_list [(''pods'', 3)]), Some (fmap_of_list [(''pods'', 1)])] ''pods''
   \<and> fmlookup (entries (Used (Total (Status exampleWritten)))) ''pods'' = Some 4"
proof -
  have h1: "written (syncResourceQuota exampleClient exampleRegistry exampleQuota) = Some exampleWritten"
    by code_simp
  have h2: "mset [Some (fmap_of_list [(''pods'', 3)]), Some (fmap_of_list [(''pods'', 1)])]
              = mset (usedMaps (Namespaces (Status exampleWritten)))"
    by (simp add: usedMaps_def exampleWritten_def)
  have h3: "fmlookup (entries (Used (Total (Status exampleWritten)))) ''pods'' = Some 4"
    by code_simp
  show ?thesis
    using h1 h2 h3 total_used_is_sum [OF h1 h2, of "''pods''"] by simp
qed

section \<open>Masking to the declared hard resources\<close>

lemma fmdom_Add: "fmdom (entries (Add a b)) = fmdom (entries a) |\<union>| fmdom (entries b)"
proof (rule fset_eqI)
  fix r
  show "r |\<in>| fmdom (entries (Add a b)) \<longleftrightarrow> r |\<in>| fmdom (entries a) |\<union>| fmdom (entries b)"
    by (cases "fmlookup (entries a) r"; cases "fmlookup (entries b) r")
       (simp_all add: fmlookup_dom_iff lookup_Add)
qed

lemma set_ResourceNames: "set (ResourceNames r) = fset (fmdom (entries r))"
  by (simp add: ResourceNames_def)

lemma fmdom_Mask: "fmdom (entries (Mask m (ResourceNames hl))) |\<subseteq>| fmdom (entries hl)"
  by (auto simp add: Mask_def set_ResourceNames)

lemma entries_hardLimitsOf: "entries (hardLimitsOf aq) = entries (Hard (Quota (Spec aq)))"
  by (simp add: hardLimitsOf_def Add_empty_copy)

lemma namespaceStep_masked:
  assumes "maskedAcc (fmdom (entries hl)) acc"
  shows "maskedAcc (fmdom (entries hl)) (namespaceStep cl reg aq hl n acc)"
  using assms fmdom_Mask
  by (simp add: maskedAcc_def namespaceStep_totalUsed fmdom_Add)
     (auto simp add: namespaceStep_used)

lemma namespaceLoop_masked:
  "maskedAcc (fmdom (entries hl)) acc \<Longrightarrow>
   maskedAcc (fmdom (entries hl)) (namespaceLoop cl reg aq hl ns acc)"
  by (induction ns arbitrary: acc) (simp_all add: namespaceStep_masked)

lemma calculateUsages_masked:
  "maskedAcc (fmdom (entries (Hard (Quota (Spec aq))))) (calculateUsages cl reg aq ns)"
proof -
  have "maskedAcc (fmdom (entries (hardLimitsOf aq))) (calculateUsages cl reg aq ns)"
    unfolding calculateUsages_def
    by (rule namespaceLoop_masked) (simp add: maskedAcc_def)
  then show ?thesis by (simp add: entries_hardLimitsOf)
qed

text \<open>
  C2. In every status that \<^verbatim>\<open>syncResourceQuota\<close> writes, the keys of the total used map
  and of each namespace's used map are keys of the spec's hard limits, and no other
  resource name occurs anywhere in the status. The spec of the written object is the
  spec that was reconciled.
\<close>

theorem written_status_masked:
  assumes "written (syncResourceQuota cl reg aq) = Some usage"
  shows "Spec usage = Spec aq
     \<and> fmdom (entries (Used (Total (Status usage)))) |\<subseteq>| fmdom (entries (Hard (Quota (Spec aq))))
     \<and> (\<forall>e \<in> set (Namespaces (Status usage)).
           fmdom (entries (Used (NsStatus e))) |\<subseteq>| fmdom (entries (Hard (Quota (Spec aq)))))
     \<and> statusResourceNames (Status usage) |\<subseteq>| fmdom (entries (Hard (Quota (Spec aq))))"
proof -
  from assms obtain ns where
    u: "usage = aq \<lparr> Status := usageStatus aq (calculateUsages cl reg aq ns) \<rparr>"
    by (rule sync_written)
  let ?D = "fmdom (entries (Hard (Quota (Spec aq))))"
  have m: "maskedAcc ?D (calculateUsages cl reg aq ns)"
    by (rule calculateUsages_masked)
  have total: "fmdom (entries (Used (Total (Status usage)))) |\<subseteq>| ?D"
    using m by (simp add: u usageStatus_def maskedAcc_def)
  have each: "\<forall>e \<in> set (Namespaces (Status usage)).
      StatusHard (NsStatus e) = None \<and> fmdom (entries (Used (NsStatus e))) |\<subseteq>| ?D"
    using m by (simp add: u usageStatus_def maskedAcc_def)
  have hard: "fmdom (entries (StatusHard (Total (Status usage)))) = ?D"
    by (simp add: u usageStatus_def entries_hardLimitsOf)
  have "statusResourceNames (Status usage) |\<subseteq>| ?D"
    using total each hard
    by (auto simp add: statusResourceNames_def ffUnion.rep_eq fset_of_list.rep_eq)
       (blast dest: fsubsetD)
  with total each show ?thesis by (simp add: u)
qed

theorem written_status_masked_witness:
  "written (syncResourceQuota exampleClient exampleRegistry exampleQuota) = Some exampleWritten
   \<and> statusResourceNames (Status exampleWritten)
         |\<subseteq>| fmdom (entries (Hard (Quota (Spec exampleQuota))))
   \<and> fst (CalculateUsage exampleClient ''n1'' [] (hardLimitsOf exampleQuota) exampleRegistry None)
         = Some (fmap_of_list [(''pods'', 1), (''services'', 2)])
   \<and> ''services'' |\<notin>| statusResourceNames (Status exampleWritten)"
proof -
  have h: "written (syncResourceQuota exampleClient exampleRegistry exampleQuota) = Some exampleWritten"
    by code_simp
  have r: "fst (CalculateUsage exampleClient ''n1'' [] (hardLimitsOf exampleQuota) exampleRegistry None)
             = Some (fmap_of_list [(''pods'', 1), (''services'', 2)])"
    by (simp add: exampleClient_def)
  have n: "''services'' |\<notin>| statusResourceNames (Status exampleWritten)"
    by code_simp
  show ?thesis
    using h r n written_status_masked [OF h] by simp
qed

section \<open>When the status is written\<close>

lemma Equals_iff: "Equals a b \<longleftrightarrow> entries a = entries b"
proof
  assume eq: "Equals a b"
  then have card: "fcard (fmdom (entries a)) = fcard (fmdom (entries b))"
    by (simp add: Equals_def split: if_splits)
  have look: "fmlookup (entries b) k = fmlookup (entries a) k" if "k |\<in>| fmdom (entries a)" for k
    using eq that
    by (auto simp add: Equals_def ResourceNames_def list_all_iff split: if_splits option.splits)
  have sub: "fmdom (entries a) |\<subseteq>| fmdom (entries b)"
  proof
    fix k assume k: "k |\<in>| fmdom (entries a)"
    then show "k |\<in>| fmdom (entries b)"
      using look [OF k] by (auto simp add: fmlookup_dom_iff)
  qed
  have dom: "fmdom (entries a) = fmdom (entries b)"
    using sub card by (metis fcard_seteq order_refl)
  show "entries a = entries b"
  proof (rule fmap_ext)
    fix k
    show "fmlookup (entries a) k = fmlookup (entries b) k"
    proof (cases "k |\<in>| fmdom (entries a)")
      case True
      then show ?thesis by (simp add: look)
    next
      case False
      then show ?thesis using dom by (metis fmdom_notD)
    qed
  qed
next
  assume "entries a = entries b"
  then show "Equals a b"
    by (auto simp add: Equals_def ResourceNames_def list_all_iff fmlookup_dom_iff)
qed

lemma namespaceStep_errors:
  "errors (namespaceStep cl reg aq hl n acc) =
     errors acc @ (case snd (CalculateUsage cl (NsName n) (Scopes (Quota (Spec aq)))
                               hl reg (ScopeSelector (Quota (Spec aq)))) of
                     None \<Rightarrow> [] | Some e \<Rightarrow> [e])"
  by (simp add: namespaceStep_def Let_def split: prod.splits option.splits)

lemma namespaceLoop_errors:
  "errors (namespaceLoop cl reg aq hl ns acc) =
     errors acc @ List.map_filter (\<lambda>n. snd (CalculateUsage cl (NsName n) (Scopes (Quota (Spec aq)))
                                 hl reg (ScopeSelector (Quota (Spec aq))))) ns"
  by (induction ns arbitrary: acc)
     (simp_all add: namespaceStep_errors List.map_filter_simps split: option.splits)

lemma calculateUsages_errors:
  "errors (calculateUsages cl reg aq ns) = evaluatorErrors cl reg aq ns"
  by (simp add: calculateUsages_def evaluatorErrors_def namespaceLoop_errors)

lemma namespaceLoop_names:
  "map Namespace (used (namespaceLoop cl reg aq hl ns acc)) = map Namespace (used acc) @ map NsName ns"
  by (induction ns arbitrary: acc) (simp_all add: namespaceStep_used)

lemma calculateUsages_names:
  "map Namespace (used (calculateUsages cl reg aq ns)) = map NsName ns"
  by (simp add: calculateUsages_def namespaceLoop_names)

lemma sync_listed:
  assumes "ListNamespaces cl (Account (Spec aq)) = Inr ns"
  shows "syncResourceQuota cl reg aq =
     (let acc = calculateUsages cl reg aq ns;
          usage = aq \<lparr> Status := usageStatus aq acc \<rparr>
      in if dirtyAsStated aq (totalUsed acc)
         then \<lparr> written = Some usage,
                returned = NewAggregate (errors acc @ updateErrors cl (Some usage)) \<rparr>
         else \<lparr> written = None, returned = NewAggregate (errors acc) \<rparr>)"
  using assms
  by (simp add: syncResourceQuota_def Let_def dirtyAsStated_def statusAbsent_def
      SemanticDeepEqual_def Equals_iff usageStatus_def updateErrors_def split: option.splits)

lemma sync_list_failed:
  assumes "ListNamespaces cl (Account (Spec aq)) = Inl err"
  shows "syncResourceQuota cl reg aq = \<lparr> written = None, returned = Some err \<rparr>"
  using assms by (simp add: syncResourceQuota_def Let_def)

text \<open>
  C3, as the code has it. When the namespace listing succeeds, \<^verbatim>\<open>syncResourceQuota\<close> calls
  the status update if and only if dirty holds: the spec's hard limits differ from the
  previous status' hard limits, or the previous status is absent, or the newly computed
  total used differs from the previous total used. When dirty does not hold, nothing is
  written and the function returns the aggregate of the evaluator errors of the listed
  namespaces. When the listing fails, nothing is written and the function returns the
  listing error, whether or not the hard limits differ.
\<close>

theorem write_iff_dirty_when_listed:
  "(\<forall>ns. ListNamespaces cl (Account (Spec aq)) = Inr ns \<longrightarrow>
       (written (syncResourceQuota cl reg aq) \<noteq> None
          \<longleftrightarrow> dirtyAsStated aq (totalUsed (calculateUsages cl reg aq ns)))
     \<and> (\<not> dirtyAsStated aq (totalUsed (calculateUsages cl reg aq ns))
          \<longrightarrow> returned (syncResourceQuota cl reg aq) = NewAggregate (evaluatorErrors cl reg aq ns)))
   \<and> (\<forall>err. ListNamespaces cl (Account (Spec aq)) = Inl err \<longrightarrow>
         written (syncResourceQuota cl reg aq) = None
       \<and> returned (syncResourceQuota cl reg aq) = Some err)"
proof (intro conjI allI impI)
  fix ns assume l: "ListNamespaces cl (Account (Spec aq)) = Inr ns"
  show "written (syncResourceQuota cl reg aq) \<noteq> None
          \<longleftrightarrow> dirtyAsStated aq (totalUsed (calculateUsages cl reg aq ns))"
    by (simp add: sync_listed [OF l] Let_def)
  assume "\<not> dirtyAsStated aq (totalUsed (calculateUsages cl reg aq ns))"
  then show "returned (syncResourceQuota cl reg aq) = NewAggregate (evaluatorErrors cl reg aq ns)"
    by (simp add: sync_listed [OF l] Let_def calculateUsages_errors)
next
  fix err assume f: "ListNamespaces cl (Account (Spec aq)) = Inl err"
  show "written (syncResourceQuota cl reg aq) = None"
    and "returned (syncResourceQuota cl reg aq) = Some err"
    by (simp_all add: sync_list_failed [OF f])
qed

theorem write_iff_dirty_when_listed_witness:
  "ListNamespaces exampleClient (Account (Spec exampleWritten))
     = Inr [\<lparr> NsName = ''n1'' \<rparr>, \<lparr> NsName = ''n2'' \<rparr>]
   \<and> \<not> dirtyAsStated exampleWritten
         (totalUsed (calculateUsages exampleClient exampleRegistry exampleWritten
                       [\<lparr> NsName = ''n1'' \<rparr>, \<lparr> NsName = ''n2'' \<rparr>]))
   \<and> written (syncResourceQuota exampleClient exampleRegistry exampleWritten) = None
   \<and> returned (syncResourceQuota exampleClient exampleRegistry exampleWritten)
       = NewAggregate (evaluatorErrors exampleClient exampleRegistry exampleWritten
                         [\<lparr> NsName = ''n1'' \<rparr>, \<lparr> NsName = ''n2'' \<rparr>])
   \<and> dirtyAsStated exampleQuota
         (totalUsed (calculateUsages exampleClient exampleRegistry exampleQuota
                       [\<lparr> NsName = ''n1'' \<rparr>, \<lparr> NsName = ''n2'' \<rparr>]))
   \<and> written (syncResourceQuota exampleClient exampleRegistry exampleQuota) \<noteq> None
   \<and> ListNamespaces failingClient (Account (Spec exampleWritten)) = Inl (ApiError ''timeout'')
   \<and> entries (Hard (Quota (Spec exampleWritten)))
       = entries (StatusHard (Total (Status exampleWritten)))
   \<and> written (syncResourceQuota failingClient exampleRegistry exampleWritten) = None
   \<and> returned (syncResourceQuota failingClient exampleRegistry exampleWritten)
       = Some (ApiError ''timeout'')"
proof -
  let ?ns = "[\<lparr> NsName = ''n1'' \<rparr>, \<lparr> NsName = ''n2'' \<rparr>]"
  note listed1 = write_iff_dirty_when_listed [of exampleClient exampleWritten exampleRegistry,
      THEN conjunct1, rule_format]
  note listed2 = write_iff_dirty_when_listed [of exampleClient exampleQuota exampleRegistry,
      THEN conjunct1, rule_format]
  note failed = write_iff_dirty_when_listed [of failingClient exampleWritten exampleRegistry,
      THEN conjunct2, rule_format]
  have l1: "ListNamespaces exampleClient (Account (Spec exampleWritten)) = Inr ?ns"
    by (simp add: exampleClient_def exampleWritten_def exampleQuota_def)
  have l2: "ListNamespaces exampleClient (Account (Spec exampleQuota)) = Inr ?ns"
    by (simp add: exampleClient_def exampleQuota_def)
  have l3: "ListNamespaces failingClient (Account (Spec exampleWritten)) = Inl (ApiError ''timeout'')"
    by (simp add: failingClient_def)
  have clean: "\<not> dirtyAsStated exampleWritten
      (totalUsed (calculateUsages exampleClient exampleRegistry exampleWritten ?ns))"
    by code_simp
  have dirty: "dirtyAsStated exampleQuota
      (totalUsed (calculateUsages exampleClient exampleRegistry exampleQuota ?ns))"
    by (simp add: dirtyAsStated_def statusAbsent_def exampleQuota_def)
  have same: "entries (Hard (Quota (Spec exampleWritten)))
       = entries (StatusHard (Total (Status exampleWritten)))"
    by (simp add: exampleWritten_def exampleQuota_def)
  have w1: "written (syncResourceQuota exampleClient exampleRegistry exampleWritten) = None"
    using listed1 [OF l1] clean by blast
  have r1: "returned (syncResourceQuota exampleClient exampleRegistry exampleWritten)
       = NewAggregate (evaluatorErrors exampleClient exampleRegistry exampleWritten ?ns)"
    using listed1 [OF l1] clean by blast
  have w2: "written (syncResourceQuota exampleClient exampleRegistry exampleQuota) \<noteq> None"
    using listed2 [OF l2] dirty by blast
  have w3: "written (syncResourceQuota failingClient exampleRegistry exampleWritten) = None"
    and r3: "returned (syncResourceQuota failingClient exampleRegistry exampleWritten)
       = Some (ApiError ''timeout'')"
    using failed [OF l3] by simp_all
  show ?thesis
    by (intro conjI) (fact l1 clean w1 r1 dirty w2 l3 same w3 r3)+
qed

text \<open>
  C3, as stated, fails when the namespace listing fails: the hard limits of \<open>q\<close> differ
  from its status, so dirty holds, and yet the function returns the listing error before
  anything is written.
\<close>

theorem write_iff_dirty_counterexample:
  "entries (Hard (Quota (Spec exampleQuota))) \<noteq> entries (StatusHard (Total (Status exampleQuota)))
   \<and> written (syncResourceQuota failingClient exampleRegistry exampleQuota) = None
   \<and> returned (syncResourceQuota failingClient exampleRegistry exampleQuota) = Some (ApiError ''timeout'')"
  by code_simp

section \<open>Evaluator errors do not abort the reconcile\<close>

lemma namespaceLoop_used:
  "used (namespaceLoop cl reg aq hl ns acc) = used acc @ map (entryFor cl reg aq hl) ns"
  by (induction ns arbitrary: acc) (simp_all add: namespaceStep_used entryFor_def usedFor_def)

lemma namespaceLoop_foldl:
  "totalUsed (namespaceLoop cl reg aq hl ns acc) =
     foldl Add (totalUsed acc) (usedMaps (map (entryFor cl reg aq hl) ns))"
  by (induction ns arbitrary: acc)
     (simp_all add: usedMaps_def namespaceStep_totalUsed namespaceStep_used entryFor_def usedFor_def)

lemma calculateUsages_used:
  "used (calculateUsages cl reg aq ns) = map (entryFor cl reg aq (hardLimitsOf aq)) ns"
  by (simp add: calculateUsages_def namespaceLoop_used)

lemma calculateUsages_totalUsed:
  "totalUsed (calculateUsages cl reg aq ns) =
     foldl Add (Some fmempty) (usedMaps (map (entryFor cl reg aq (hardLimitsOf aq)) ns))"
  by (simp add: calculateUsages_def namespaceLoop_foldl)

lemma usedFor_reported:
  assumes "r |\<in>| fmdom (entries hl)"
    and "fmlookup (entries (fst (CalculateUsage cl n (Scopes (Quota (Spec aq))) hl reg
                                   (ScopeSelector (Quota (Spec aq)))))) r = Some v"
  shows "fmlookup (entries (usedFor cl reg aq hl n)) r = Some v"
  using assms by (auto simp add: usedFor_def Mask_def overlay_def set_ResourceNames
      fmlookup_dom_iff cong del: fmfilter_cong)

text \<open>
  C7. Once the namespaces are listed, an evaluator error in one namespace is remembered and
  the loop goes on: every listed namespace gets its entry, the errors of the loop are
  exactly the evaluator errors, the status is written when dirty holds, and the function
  returns the aggregate of the evaluator errors followed by the error of the status
  update if there is one, which is nil only when there is no error at all. The entry of
  each namespace is computed from that namespace's own evaluation and the previous status
  only, whatever errors other namespaces had: a quantity that the evaluation of a namespace
  reports for a declared hard resource is the quantity in that namespace's entry, and the
  total is the sum of these entries.
\<close>

theorem evaluator_errors_collected:
  assumes "ListNamespaces cl (Account (Spec aq)) = Inr ns"
  shows "map Namespace (used (calculateUsages cl reg aq ns)) = map NsName ns
     \<and> errors (calculateUsages cl reg aq ns) = evaluatorErrors cl reg aq ns
     \<and> (dirtyAsStated aq (totalUsed (calculateUsages cl reg aq ns)) \<longrightarrow>
          written (syncResourceQuota cl reg aq)
            = Some (aq \<lparr> Status := usageStatus aq (calculateUsages cl reg aq ns) \<rparr>))
     \<and> returned (syncResourceQuota cl reg aq)
          = NewAggregate (evaluatorErrors cl reg aq ns
                            @ updateErrors cl (written (syncResourceQuota cl reg aq)))
     \<and> (returned (syncResourceQuota cl reg aq) = None \<longleftrightarrow>
          evaluatorErrors cl reg aq ns = []
          \<and> updateErrors cl (written (syncResourceQuota cl reg aq)) = [])
     \<and> used (calculateUsages cl reg aq ns) = map (entryFor cl reg aq (hardLimitsOf aq)) ns
     \<and> totalUsed (calculateUsages cl reg aq ns)
          = foldl Add (Some fmempty) (usedMaps (map (entryFor cl reg aq (hardLimitsOf aq)) ns))
     \<and> (\<forall>i r v. i < length ns \<and> r |\<in>| fmdom (entries (Hard (Quota (Spec aq))))
            \<and> fmlookup (entries (newUsageOf cl reg aq (ns ! i))) r = Some v
          \<longrightarrow> fmlookup (entries (Used (NsStatus (used (calculateUsages cl reg aq ns) ! i)))) r
                = Some v)"
proof -
  have old: "map Namespace (used (calculateUsages cl reg aq ns)) = map NsName ns
     \<and> errors (calculateUsages cl reg aq ns) = evaluatorErrors cl reg aq ns
     \<and> (dirtyAsStated aq (totalUsed (calculateUsages cl reg aq ns)) \<longrightarrow>
          written (syncResourceQuota cl reg aq)
            = Some (aq \<lparr> Status := usageStatus aq (calculateUsages cl reg aq ns) \<rparr>))
     \<and> returned (syncResourceQuota cl reg aq)
          = NewAggregate (evaluatorErrors cl reg aq ns
                            @ updateErrors cl (written (syncResourceQuota cl reg aq)))
     \<and> (returned (syncResourceQuota cl reg aq) = None \<longleftrightarrow>
          evaluatorErrors cl reg aq ns = []
          \<and> updateErrors cl (written (syncResourceQuota cl reg aq)) = [])"
    by (simp add: sync_listed [OF assms] Let_def calculateUsages_errors calculateUsages_names
        NewAggregate_def updateErrors_def)
  have reported: "fmlookup (entries (Used (NsStatus (used (calculateUsages cl reg aq ns) ! i)))) r
                = Some v"
    if "i < length ns" "r |\<in>| fmdom (entries (Hard (Quota (Spec aq))))"
      "fmlookup (entries (newUsageOf cl reg aq (ns ! i))) r = Some v" for i r v
  proof -
    have "r |\<in>| fmdom (entries (hardLimitsOf aq))"
      using that(2) by (simp add: entries_hardLimitsOf)
    then have "fmlookup (entries (usedFor cl reg aq (hardLimitsOf aq) (NsName (ns ! i)))) r = Some v"
      using that(3) unfolding newUsageOf_def by (rule usedFor_reported)
    then show ?thesis
      using that(1) by (simp add: calculateUsages_used entryFor_def)
  qed
  then have all: "\<forall>i r v. i < length ns \<and> r |\<in>| fmdom (entries (Hard (Quota (Spec aq))))
            \<and> fmlookup (entries (newUsageOf cl reg aq (ns ! i))) r = Some v
          \<longrightarrow> fmlookup (entries (Used (NsStatus (used (calculateUsages cl reg aq ns) ! i)))) r
                = Some v"
    by blast
  show ?thesis
    using old calculateUsages_used [of cl reg aq ns] calculateUsages_totalUsed [of cl reg aq ns] all
    by blast
qed


theorem evaluator_errors_collected_witness:
  "ListNamespaces flakyClient (Account (Spec exampleQuota))
     = Inr [\<lparr> NsName = ''n1'' \<rparr>, \<lparr> NsName = ''n2'' \<rparr>]
   \<and> evaluatorErrors flakyClient exampleRegistry exampleQuota
         [\<lparr> NsName = ''n1'' \<rparr>, \<lparr> NsName = ''n2'' \<rparr>]
       = [Aggregate [EvaluatorError ''no metrics'']]
   \<and> ''pods'' |\<in>| fmdom (entries (Hard (Quota (Spec exampleQuota))))
   \<and> fmlookup (entries (newUsageOf flakyClient exampleRegistry exampleQuota
                              ([\<lparr> NsName = ''n1'' \<rparr>, \<lparr> NsName = ''n2'' \<rparr>] ! 1))) ''pods''
       = Some 3
   \<and> fmlookup (entries (Used (NsStatus
          (used (calculateUsages flakyClient exampleRegistry exampleQuota
                   [\<lparr> NsName = ''n1'' \<rparr>, \<lparr> NsName = ''n2'' \<rparr>]) ! 1)))) ''pods''
       = Some 3
   \<and> map Namespace (used (calculateUsages flakyClient exampleRegistry exampleQuota
                              [\<lparr> NsName = ''n1'' \<rparr>, \<lparr> NsName = ''n2'' \<rparr>])) = [''n1'', ''n2'']
   \<and> written (syncResourceQuota flakyClient exampleRegistry exampleQuota) = Some exampleWritten
   \<and> returned (syncResourceQuota flakyClient exampleRegistry exampleQuota)
       = Some (Aggregate [Aggregate [EvaluatorError ''no metrics'']])"
proof -
  let ?ns = "[\<lparr> NsName = ''n1'' \<rparr>, \<lparr> NsName = ''n2'' \<rparr>]"
  have l: "ListNamespaces flakyClient (Account (Spec exampleQuota)) = Inr ?ns"
    by (simp add: flakyClient_def exampleClient_def exampleQuota_def)
  note collected = evaluator_errors_collected [OF l, of exampleRegistry]
  have e: "evaluatorErrors flakyClient exampleRegistry exampleQuota ?ns
             = [Aggregate [EvaluatorError ''no metrics'']]"
    by code_simp
  have h: "''pods'' |\<in>| fmdom (entries (Hard (Quota (Spec exampleQuota))))"
    by code_simp
  have n: "fmlookup (entries (newUsageOf flakyClient exampleRegistry exampleQuota (?ns ! 1))) ''pods''
             = Some 3"
    by (simp add: newUsageOf_def flakyClient_def)
  have len: "(1::nat) < length ?ns"
    by simp
  have second: "fmlookup (entries (Used (NsStatus
          (used (calculateUsages flakyClient exampleRegistry exampleQuota ?ns) ! 1)))) ''pods''
       = Some 3"
    using collected [THEN conjunct2, THEN conjunct2, THEN conjunct2, THEN conjunct2,
        THEN conjunct2, THEN conjunct2, THEN conjunct2] len h n
    by blast
  have names: "map Namespace (used (calculateUsages flakyClient exampleRegistry exampleQuota ?ns))
      = [''n1'', ''n2'']"
    using collected [THEN conjunct1] by simp
  have w: "written (syncResourceQuota flakyClient exampleRegistry exampleQuota) = Some exampleWritten"
    by code_simp
  have u: "updateErrors flakyClient (Some exampleWritten) = []"
    by (simp add: updateErrors_def flakyClient_def exampleClient_def)
  have r: "returned (syncResourceQuota flakyClient exampleRegistry exampleQuota)
       = Some (Aggregate [Aggregate [EvaluatorError ''no metrics'']])"
    using collected [THEN conjunct2, THEN conjunct2, THEN conjunct2, THEN conjunct1] e w u
    by (simp add: NewAggregate_def)
  show ?thesis
    by (intro conjI) (fact l e h n second names w r)+
qed

section \<open>Reconciling twice\<close>

lemma foldl_Add_not_nil: "t \<noteq> None \<Longrightarrow> foldl Add t xs \<noteq> None"
proof (induction xs arbitrary: t)
  case Nil
  then show ?case by simp
next
  case (Cons x xs)
  show ?case using Cons.IH [OF Add_not_nil] by simp
qed

lemma entryFor_sel:
  "Namespace (entryFor cl reg aq hl n) = NsName n"
  "Used (NsStatus (entryFor cl reg aq hl n)) = usedFor cl reg aq hl (NsName n)"
  by (simp_all add: entryFor_def)

lemma usedFor_not_nil: "usedFor cl reg aq hl m \<noteq> None"
  by (simp add: usedFor_def Mask_def)

lemma seedUsedList_recorded:
  "entries (seedUsedList (map (entryFor cl reg aq hl) ns) m init) =
     (if m \<in> NsName ` set ns then entries (usedFor cl reg aq hl m) else entries init)"
proof (induction ns arbitrary: init)
  case Nil
  then show ?case by simp
next
  case (Cons n ns)
  show ?case
    by (auto simp add: Cons.IH entryFor_sel usedFor_not_nil Add_empty_copy)
qed

lemma remask:
  "fmfilter P (fmfilter P (s ++\<^sub>f u) ++\<^sub>f u) = fmfilter P (s ++\<^sub>f u)"
  by (rule fmap_ext) simp

lemma usedFor_again:
  assumes "Namespaces (Status aq') = map (entryFor cl reg aq hl) ns"
    and "Spec aq' = Spec aq" and "m \<in> NsName ` set ns"
  shows "usedFor cl reg aq' hl m = usedFor cl reg aq hl m"
proof -
  let ?u = "entries (fst (CalculateUsage cl m (Scopes (Quota (Spec aq))) hl reg
                            (ScopeSelector (Quota (Spec aq)))))"
  let ?P = "\<lambda>key. key \<in> set (ResourceNames hl)"
  let ?s = "entries (seedUsedList (Namespaces (Status aq)) m (Some fmempty))"
  have old: "usedFor cl reg aq hl m = Some (fmfilter ?P (?s ++\<^sub>f ?u))"
    by (simp add: usedFor_def overlay_def Mask_def cong del: fmfilter_cong)
  have "entries (seedUsedList (Namespaces (Status aq')) m (Some fmempty))
          = entries (usedFor cl reg aq hl m)"
    using assms(3) by (simp add: assms(1) seedUsedList_recorded)
  then have seed: "entries (seedUsedList (Namespaces (Status aq')) m (Some fmempty))
          = fmfilter ?P (?s ++\<^sub>f ?u)"
    by (simp add: old)
  have "usedFor cl reg aq' hl m = Some (fmfilter ?P (fmfilter ?P (?s ++\<^sub>f ?u) ++\<^sub>f ?u))"
    by (simp add: usedFor_def overlay_def Mask_def assms(2) seed cong del: fmfilter_cong)
  then show ?thesis by (simp only: old remask)
qed

lemma entries_again:
  assumes "Namespaces (Status aq') = map (entryFor cl reg aq hl) ns"
    and "Spec aq' = Spec aq"
  shows "map (entryFor cl reg aq' hl) ns = map (entryFor cl reg aq hl) ns"
  using usedFor_again [OF assms] by (simp add: entryFor_def)

text \<open>
  C5. If a reconcile has written a status, a second reconcile of the written object against
  the same cluster (the same namespace list, the same evaluator results) computes exactly
  the status the object already has, finds that dirty does not hold, and does not call the
  status update.
\<close>

theorem reconcile_idempotent:
  assumes "written (syncResourceQuota cl reg aq) = Some usage"
    and "ListNamespaces cl (Account (Spec aq)) = Inr ns"
  shows "usageStatus usage (calculateUsages cl reg usage ns) = Status usage
     \<and> \<not> dirtyAsStated usage (totalUsed (calculateUsages cl reg usage ns))
     \<and> written (syncResourceQuota cl reg usage) = None"
proof -
  from assms have u: "usage = aq \<lparr> Status := usageStatus aq (calculateUsages cl reg aq ns) \<rparr>"
    by (elim sync_written) simp
  let ?hl = "hardLimitsOf aq"
  have spec: "Spec usage = Spec aq" and hl: "hardLimitsOf usage = ?hl"
    by (simp_all add: u hardLimitsOf_def)
  have first: "used (calculateUsages cl reg aq ns) = map (entryFor cl reg aq ?hl) ns"
    and firstTotal: "totalUsed (calculateUsages cl reg aq ns)
                        = foldl Add (Some fmempty) (usedMaps (map (entryFor cl reg aq ?hl) ns))"
    by (simp_all add: calculateUsages_def namespaceLoop_used namespaceLoop_foldl)
  have recorded: "Namespaces (Status usage) = map (entryFor cl reg aq ?hl) ns"
    by (simp add: u usageStatus_def first)
  have same: "map (entryFor cl reg usage ?hl) ns = map (entryFor cl reg aq ?hl) ns"
    by (rule entries_again [OF recorded spec])
  have second: "used (calculateUsages cl reg usage ns) = used (calculateUsages cl reg aq ns)"
    and secondTotal: "totalUsed (calculateUsages cl reg usage ns)
                        = totalUsed (calculateUsages cl reg aq ns)"
    by (simp_all add: calculateUsages_def hl namespaceLoop_used namespaceLoop_foldl same)
  have st: "Status usage = usageStatus aq (calculateUsages cl reg aq ns)"
    by (simp add: u)
  have status: "usageStatus usage (calculateUsages cl reg usage ns) = Status usage"
    by (simp add: st) (simp add: usageStatus_def hl second secondTotal)
  have "totalUsed (calculateUsages cl reg aq ns) \<noteq> None"
    by (simp add: firstTotal foldl_Add_not_nil)
  then have clean: "\<not> dirtyAsStated usage (totalUsed (calculateUsages cl reg usage ns))"
    by (simp add: dirtyAsStated_def statusAbsent_def secondTotal spec st)
       (simp add: usageStatus_def entries_hardLimitsOf, simp add: hardLimitsOf_def Add_def Let_def)
  have l: "ListNamespaces cl (Account (Spec usage)) = Inr ns"
    using assms(2) by (simp add: spec)
  have "written (syncResourceQuota cl reg usage) = None"
    using clean by (simp add: sync_listed [OF l] Let_def)
  with status clean show ?thesis by simp
qed

theorem reconcile_idempotent_witness:
  "written (syncResourceQuota exampleClient exampleRegistry exampleQuota) = Some exampleWritten
   \<and> ListNamespaces exampleClient (Account (Spec exampleQuota))
       = Inr [\<lparr> NsName = ''n1'' \<rparr>, \<lparr> NsName = ''n2'' \<rparr>]
   \<and> usageStatus exampleWritten
         (calculateUsages exampleClient exampleRegistry exampleWritten
            [\<lparr> NsName = ''n1'' \<rparr>, \<lparr> NsName = ''n2'' \<rparr>]) = Status exampleWritten
   \<and> written (syncResourceQuota exampleClient exampleRegistry exampleWritten) = None"
proof -
  have w: "written (syncResourceQuota exampleClient exampleRegistry exampleQuota) = Some exampleWritten"
    by code_simp
  have l: "ListNamespaces exampleClient (Account (Spec exampleQuota))
             = Inr [\<lparr> NsName = ''n1'' \<rparr>, \<lparr> NsName = ''n2'' \<rparr>]"
    by (simp add: exampleClient_def exampleQuota_def)
  show ?thesis
    using w l reconcile_idempotent [OF w l] by simp
qed

section \<open>Which queue an observed quota goes to\<close>

lemma evaluatorLoop_iff:
  "evaluatorLoop es m \<longleftrightarrow> (\<exists>e \<in> set es. MatchingResources e m \<noteq> [])"
  by (induction es) auto

lemma constraintLoop_iff:
  "constraintLoop reg u names \<longleftrightarrow>
     (\<exists>r \<in> set names. fmlookup (entries u) r = None \<and> claimedByEvaluator reg r)"
  by (induction names) (auto simp add: evaluatorLoop_iff claimedByEvaluator_def)

text \<open>
  C4. \<^verbatim>\<open>addQuota\<close> adds the quota's key to the priority queue when the spec's hard
  limits differ from the status' hard limits; otherwise to the priority queue when some
  declared hard resource has no entry in the status' total used map and some registered
  evaluator matches that resource; otherwise to the primary queue. In each case the other
  queue is left as it was.
\<close>

theorem addQuota_queue_choice:
  "addQuota rq aq =
     (if hardDiffers aq
      then rq \<lparr> missingUsageQueue := QueueAdd (Name aq) (missingUsageQueue rq) \<rparr>
      else if missingUsage (registry rq) aq
      then rq \<lparr> missingUsageQueue := QueueAdd (Name aq) (missingUsageQueue rq) \<rparr>
      else rq \<lparr> queue := QueueAdd (Name aq) (queue rq) \<rparr>)"
proof (cases "hardDiffers aq")
  case True
  then show ?thesis
    by (simp add: addQuota_def KeyFunc_def SemanticDeepEqual_def hardDiffers_def)
next
  case False
  then have same: "entries (StatusHard (Total (Status aq))) = entries (Hard (Quota (Spec aq)))"
    by (simp add: hardDiffers_def)
  have "constraintLoop (registry rq) (Used (Total (Status aq)))
          (ResourceNames (StatusHard (Total (Status aq)))) \<longleftrightarrow> missingUsage (registry rq) aq"
    by (simp add: constraintLoop_iff set_ResourceNames same missingUsage_def)
  with False show ?thesis
    by (simp add: addQuota_def KeyFunc_def SemanticDeepEqual_def hardDiffers_def)
qed

theorem addQuota_queue_choice_witness:
  "hardDiffers exampleQuota
   \<and> missingUsageQueue (addQuota exampleController exampleQuota)
       = \<lparr> items = [''q''], shuttingDown = False \<rparr>
   \<and> queue (addQuota exampleController exampleQuota) = queue exampleController
   \<and> \<not> hardDiffers exampleMissing
   \<and> missingUsage (registry exampleController) exampleMissing
   \<and> missingUsageQueue (addQuota exampleController exampleMissing)
       = \<lparr> items = [''q''], shuttingDown = False \<rparr>
   \<and> queue (addQuota exampleController exampleMissing) = queue exampleController
   \<and> \<not> hardDiffers exampleWritten
   \<and> \<not> missingUsage (registry exampleController) exampleWritten
   \<and> queue (addQuota exampleController exampleWritten)
       = \<lparr> items = [''q''], shuttingDown = False \<rparr>
   \<and> missingUsageQueue (addQuota exampleController exampleWritten)
       = missingUsageQueue exampleController"
proof -
  have d1: "hardDiffers exampleQuota"
    by code_simp
  have d2: "\<not> hardDiffers exampleMissing"
    and m2: "missingUsage (registry exampleController) exampleMissing"
    by code_simp+
  have d3: "\<not> hardDiffers exampleWritten"
    and m3: "\<not> missingUsage (registry exampleController) exampleWritten"
    by code_simp+
  have names: "Name exampleQuota = ''q''" "Name exampleMissing = ''q''" "Name exampleWritten = ''q''"
    by (simp_all add: exampleQuota_def exampleMissing_def exampleWritten_def)
  show ?thesis
    using d1 d2 m2 d3 m3
      addQuota_queue_choice [of exampleController exampleQuota]
      addQuota_queue_choice [of exampleController exampleMissing]
      addQuota_queue_choice [of exampleController exampleWritten]
    by (simp add: names QueueAdd_def exampleController_def)
qed

section \<open>Replenishment\<close>

lemma replenishLoop_eq:
  "replenishLoop ev qs rq = rq \<lparr> queue := enqueueAllOf (queue rq) (filter (tracked ev) qs) \<rparr>"
  by (induction qs arbitrary: rq)
     (simp_all add: enqueueAllOf_def tracked_def enqueueAccountQuota_def KeyFunc_def Let_def)

lemma items_QueueAdd: "set (items (QueueAdd k q)) \<subseteq> insert k (set (items q))"
  by (auto simp add: QueueAdd_def)

lemma items_enqueueAllOf:
  "set (items (enqueueAllOf q aqs)) \<subseteq> set (items q) \<union> Name ` set aqs"
proof (induction aqs arbitrary: q)
  case Nil
  then show ?case by (simp add: enqueueAllOf_def)
next
  case (Cons a aqs)
  have "set (items (enqueueAllOf (QueueAdd (Name a) q) aqs))
          \<subseteq> set (items (QueueAdd (Name a) q)) \<union> Name ` set aqs"
    by (rule Cons.IH)
  then show ?case
    using items_QueueAdd [of "Name a" q] by (auto simp add: enqueueAllOf_def)
qed

lemma unwritten_not_tracked:
  assumes "intersecting ev" and "StatusHard (Total (Status aq)) = None"
  shows "\<not> tracked ev aq"
proof -
  have "ResourceNames (StatusHard (Total (Status aq))) = []"
    by (simp add: assms(2) ResourceNames_def sorted_list_of_fset.rep_eq)
  moreover have "set (MatchingResources ev []) \<subseteq> set []"
    using assms(1) unfolding intersecting_def by blast
  ultimately show ?thesis by (simp add: tracked_def)
qed

text \<open>
  C10. \<^verbatim>\<open>replenishQuota\<close> leaves the priority queue alone and adds to the primary queue
  the keys of exactly those listed quotas for which the evaluator of the group resource
  matches a resource name of the quota's status hard limits. Without an evaluator for the
  group resource, on a listing error and on an empty list the controller is unchanged.
  With an evaluator that keeps the contract of \<^verbatim>\<open>MatchingResources\<close>, a key that is not
  waiting and belongs only to quotas whose status hard limits are still nil is not added.
\<close>

theorem replenishQuota_primary_only:
  "replenishQuota cl rq gr ns =
     (case RegistryGet (registry rq) gr of
        None \<Rightarrow> rq
      | Some ev \<Rightarrow>
          (case ListAccountQuotas cl of
             Inl err \<Rightarrow> rq
           | Inr qs \<Rightarrow> rq \<lparr> queue := enqueueAllOf (queue rq) (filter (tracked ev) qs) \<rparr>))
   \<and> missingUsageQueue (replenishQuota cl rq gr ns) = missingUsageQueue rq
   \<and> (RegistryGet (registry rq) gr = None \<or> ListAccountQuotas cl = Inr []
        \<longrightarrow> replenishQuota cl rq gr ns = rq)
   \<and> (\<forall>ev qs. RegistryGet (registry rq) gr = Some ev \<and> intersecting ev
          \<and> ListAccountQuotas cl = Inr qs
          \<and> (\<forall>aq \<in> set qs. Name aq = k \<longrightarrow> StatusHard (Total (Status aq)) = None)
          \<and> k \<notin> set (items (queue rq))
        \<longrightarrow> k \<notin> set (items (queue (replenishQuota cl rq gr ns))))"
proof -
  have eq: "replenishQuota cl rq gr ns =
     (case RegistryGet (registry rq) gr of
        None \<Rightarrow> rq
      | Some ev \<Rightarrow>
          (case ListAccountQuotas cl of
             Inl err \<Rightarrow> rq
           | Inr qs \<Rightarrow> rq \<lparr> queue := enqueueAllOf (queue rq) (filter (tracked ev) qs) \<rparr>))"
    by (simp add: replenishQuota_def replenishLoop_eq enqueueAllOf_def
        split: option.splits sum.splits)
  have prio: "missingUsageQueue (replenishQuota cl rq gr ns) = missingUsageQueue rq"
    by (simp add: eq split: option.splits sum.splits)
  have nothing: "RegistryGet (registry rq) gr = None \<or> ListAccountQuotas cl = Inr []
        \<longrightarrow> replenishQuota cl rq gr ns = rq"
    by (auto simp add: eq enqueueAllOf_def split: option.splits)
  have fresh: "k \<notin> set (items (queue (replenishQuota cl rq gr ns)))"
    if ev: "RegistryGet (registry rq) gr = Some ev" and int: "intersecting ev"
      and qs: "ListAccountQuotas cl = Inr qs"
      and un: "\<forall>aq \<in> set qs. Name aq = k \<longrightarrow> StatusHard (Total (Status aq)) = None"
      and k: "k \<notin> set (items (queue rq))" for ev qs
  proof -
    have "k \<notin> Name ` set (filter (tracked ev) qs)"
      using un unwritten_not_tracked [OF int] by auto
    with k have "k \<notin> set (items (enqueueAllOf (queue rq) (filter (tracked ev) qs)))"
      using items_enqueueAllOf [of "queue rq" "filter (tracked ev) qs"] by blast
    then show ?thesis by (simp add: eq ev qs)
  qed
  from fresh have unwritten:
    "\<forall>ev qs. RegistryGet (registry rq) gr = Some ev \<and> intersecting ev
          \<and> ListAccountQuotas cl = Inr qs
          \<and> (\<forall>aq \<in> set qs. Name aq = k \<longrightarrow> StatusHard (Total (Status aq)) = None)
          \<and> k \<notin> set (items (queue rq))
        \<longrightarrow> k \<notin> set (items (queue (replenishQuota cl rq gr ns)))"
    by blast
  show ?thesis
    by (intro conjI) (fact eq, fact prio, fact nothing, fact unwritten)
qed

theorem replenishQuota_primary_only_witness:
  "RegistryGet (registry exampleController) (GroupResource [] ''pods'') = Some podEvaluator
   \<and> intersecting podEvaluator
   \<and> ListAccountQuotas quotaClient = Inr [exampleWritten, exampleUnwritten]
   \<and> Hard (Quota (Spec exampleUnwritten)) = Some (fmap_of_list [(''pods'', 10)])
   \<and> StatusHard (Total (Status exampleUnwritten)) = None
   \<and> ''fresh'' \<notin> set (items (queue
         (replenishQuota quotaClient exampleController (GroupResource [] ''pods'') ''n1'')))
   \<and> queue (replenishQuota quotaClient exampleController (GroupResource [] ''pods'') ''n1'')
       = \<lparr> items = [''q''], shuttingDown = False \<rparr>
   \<and> missingUsageQueue
         (replenishQuota quotaClient exampleController (GroupResource [] ''pods'') ''n1'')
       = missingUsageQueue exampleController
   \<and> RegistryGet (registry exampleController) (GroupResource ''apps'' ''deployments'') = None
   \<and> replenishQuota quotaClient exampleController (GroupResource ''apps'' ''deployments'') ''n1''
       = exampleController"
proof -
  have ev: "RegistryGet (registry exampleController) (GroupResource [] ''pods'') = Some podEvaluator"
    by (simp add: exampleController_def exampleRegistry_def)
  have none: "RegistryGet (registry exampleController) (GroupResource ''apps'' ''deployments'') = None"
    by (simp add: exampleController_def exampleRegistry_def)
  have int: "intersecting podEvaluator"
    by (auto simp add: intersecting_def podEvaluator_def)
  have qs: "ListAccountQuotas quotaClient = Inr [exampleWritten, exampleUnwritten]"
    by (simp add: quotaClient_def)
  have spec: "Hard (Quota (Spec exampleUnwritten)) = Some (fmap_of_list [(''pods'', 10)])"
    and un: "StatusHard (Total (Status exampleUnwritten)) = None"
    by (simp_all add: exampleUnwritten_def exampleQuota_def)
  have names: "Name exampleWritten = ''q''" "Name exampleUnwritten = ''fresh''"
    by (simp_all add: exampleWritten_def exampleUnwritten_def exampleQuota_def)
  have waiting: "''fresh'' \<notin> set (items (queue exampleController))"
    by (simp add: exampleController_def)
  have q: "queue (replenishQuota quotaClient exampleController (GroupResource [] ''pods'') ''n1'')
             = \<lparr> items = [''q''], shuttingDown = False \<rparr>"
    by code_simp
  note pods = replenishQuota_primary_only [of quotaClient exampleController
      "GroupResource [] ''pods''" "''n1''" "''fresh''"]
  note deployments = replenishQuota_primary_only [of quotaClient exampleController
      "GroupResource ''apps'' ''deployments''" "''n1''" "''fresh''"]
  have only: "\<forall>aq \<in> set [exampleWritten, exampleUnwritten].
      Name aq = ''fresh'' \<longrightarrow> StatusHard (Total (Status aq)) = None"
    using un names by simp
  have fresh: "''fresh'' \<notin> set (items (queue
         (replenishQuota quotaClient exampleController (GroupResource [] ''pods'') ''n1'')))"
    using pods [THEN conjunct2, THEN conjunct2, THEN conjunct2] ev int qs only waiting
    by blast
  have prio: "missingUsageQueue
         (replenishQuota quotaClient exampleController (GroupResource [] ''pods'') ''n1'')
       = missingUsageQueue exampleController"
    by (rule pods [THEN conjunct2, THEN conjunct1])
  have unchanged: "replenishQuota quotaClient exampleController
      (GroupResource ''apps'' ''deployments'') ''n1'' = exampleController"
    using deployments [THEN conjunct2, THEN conjunct2, THEN conjunct1] none by blast
  show ?thesis
    by (intro conjI) (fact ev int qs spec un fresh q prio none unchanged)+
qed

section \<open>The discovery loop\<close>






section \<open>The discovery probe\<close>

text \<open>
  C8, as the code has it. \<^verbatim>\<open>GetQuotableResources\<close> returns the one triple of the core
  group, version \<open>v1\<close>, resource \<open>pods\<close>, and a nil error, whatever the cluster serves; so
  the discovery loop always continues with exactly that set and never takes the paths for
  a discovery error.
\<close>

theorem GetQuotableResources_fixed:
  "GetQuotableResources = ({| GroupVersionResource [] ''v1'' ''pods'' |}, None)
   \<and> mergeDiscovery old GetQuotableResources = Some {| GroupVersionResource [] ''v1'' ''pods'' |}"
  by (simp add: GetQuotableResources_def mergeDiscovery_def)

text \<open>
  C8, as stated, fails: on a cluster that serves deployments with the verbs create, list,
  watch and delete, the returned set does not contain them.
\<close>

theorem GetQuotableResources_counterexample:
  "fst GetQuotableResources \<noteq> servedQuotable exampleServed
   \<and> GroupVersionResource ''apps'' ''v1'' ''deployments'' |\<in>| servedQuotable exampleServed
   \<and> GroupVersionResource ''apps'' ''v1'' ''deployments'' |\<notin>| fst GetQuotableResources"
  by code_simp

section \<open>Shutting down\<close>

text \<open>
  C9. When the stop channel is closed, \<^verbatim>\<open>Run\<close> shuts the primary queue down and leaves
  the priority queue as it was: on a controller whose queues are open, the priority queue
  is still open after \<^verbatim>\<open>Run\<close> has returned.
\<close>

theorem Run_shuts_primary_queue_only:
  "queue (Run rq workers) = ShutDown (queue rq)
   \<and> missingUsageQueue (Run rq workers) = missingUsageQueue rq
   \<and> shuttingDown (queue (Run exampleController 1))
   \<and> \<not> shuttingDown (missingUsageQueue (Run exampleController 1))"
  by (simp add: Run_def ShutDown_def exampleController_def)

end
